theory Spec2Isabelle
  imports Complex_Main "HOL-Library.Sublist"
begin

section \<open>Strings\<close>

text \<open>
  A Python \<open>str\<close> is a sequence of code points. The model covers the code points below
  256, one \<^typ>\<open>char\<close> each, so that \<^const>\<open>length\<close> counts what \<open>len\<close> counts.
  The phoneme names of the assessment service are ASCII letters and stress digits.

  On this range \<open>str.isdigit\<close> holds for \<open>0\<close> to \<open>9\<close> and for the superscripts
  two, three and one (178, 179, 185), and \<open>str.lower\<close> changes the letters \<open>A\<close> to \<open>Z\<close>
  and the accented capitals 192 to 222, the multiplication sign 215 apart, each to the code
  point 32 above it.
\<close>

definition isdigit :: "char \<Rightarrow> bool" where
  "isdigit c =
     (let n = (of_char c :: nat)
      in (48 \<le> n \<and> n \<le> 57) \<or> n = 178 \<or> n = 179 \<or> n = 185)"

definition lower_char :: "char \<Rightarrow> char" where
  "lower_char c =
     (let n = (of_char c :: nat)
      in if (65 \<le> n \<and> n \<le> 90) \<or> (192 \<le> n \<and> n \<le> 222 \<and> n \<noteq> 215)
         then char_of (n + 32) else c)"

definition lower :: "string \<Rightarrow> string" where
  "lower s = map lower_char s"

section \<open>Dictionaries and errors\<close>

text \<open>
  A dictionary literal is an association list in the order it is written; \<open>d.get(k, v)\<close>
  and \<open>k in d\<close> never raise, \<open>d[k]\<close> raises \<open>KeyError\<close> on a missing key.
\<close>

datatype py_error = KeyError

definition dict_get :: "('k \<times> 'v) list \<Rightarrow> 'k \<Rightarrow> 'v \<Rightarrow> 'v" where
  "dict_get d k dflt = (case map_of d k of None \<Rightarrow> dflt | Some v \<Rightarrow> v)"

definition dict_in :: "'k \<Rightarrow> ('k \<times> 'v) list \<Rightarrow> bool" where
  "dict_in k d = (map_of d k \<noteq> None)"

definition dict_item :: "('k \<times> 'v) list \<Rightarrow> 'k \<Rightarrow> py_error + 'v" where
  "dict_item d k = (case map_of d k of None \<Rightarrow> Inl KeyError | Some v \<Rightarrow> Inr v)"

section \<open>The phoneme translator\<close>

text \<open>
  \<open>azure_phoneme_to_text\<close> is defined twice, in \<open>main.py\<close> and in \<open>main2.py\<close>. The names
  of \<open>main2.py\<close> carry the suffix \<open>2\<close>. The standard table \<open>mapping\<close> is the same text
  in both files; the single-letter tables are two.
\<close>

definition mapping :: "(string \<times> string) list" where
  "mapping =
    [(''aa'', ''ah''), (''ae'', ''uh''), (''ah'', ''uh''), (''ax'', ''uh''), (''ao'', ''aw''),
     (''aw'', ''ow''), (''ay'', ''eye''), (''b'', ''b''), (''ch'', ''ch''), (''d'', ''d''),
     (''dh'', ''th''), (''eh'', ''eh''), (''er'', ''er''), (''ey'', ''ay''), (''f'', ''f''),
     (''g'', ''g''), (''hh'', ''h''), (''ih'', ''ih''), (''iy'', ''ee''), (''jh'', ''j''),
     (''k'', ''k''), (''l'', ''l''), (''m'', ''m''), (''n'', ''n''), (''ng'', ''ng''),
     (''ow'', ''oh''), (''oy'', ''oy''), (''p'', ''p''), (''r'', ''r''), (''s'', ''s''),
     (''sh'', ''sh''), (''t'', ''t''), (''th'', ''th''), (''uh'', ''oo''), (''uw'', ''oo''),
     (''v'', ''v''), (''w'', ''w''), (''y'', ''y''), (''z'', ''z''), (''zh'', ''zh''),
     (''axr'', ''er'')]"

definition single_letter_mapping :: "(string \<times> string) list" where
  "single_letter_mapping =
    [(''a'', ''ay''), (''b'', ''buh''), (''c'', ''cuh''), (''d'', ''duh''), (''e'', ''ee''),
     (''f'', ''fuh''), (''g'', ''guh''), (''h'', ''huh''), (''i'', ''eye''), (''j'', ''juh''),
     (''k'', ''kuh''), (''l'', ''luh''), (''m'', ''muh''), (''n'', ''nuh''), (''o'', ''oh''),
     (''p'', ''puh''), (''q'', ''koo''), (''r'', ''ruh''), (''s'', ''suh''), (''t'', ''tuh''),
     (''u'', ''oo''), (''v'', ''vuh''), (''w'', ''wuh''), (''x'', ''ex''), (''y'', ''yuh''),
     (''z'', ''zuh'')]"

definition single_letter_mapping2 :: "(string \<times> string) list" where
  "single_letter_mapping2 =
    [(''a'', ''ay''), (''b'', ''buh''), (''c'', ''cuh''), (''d'', ''duh''), (''e'', ''ee''),
     (''f'', ''fuh''), (''g'', ''guh''), (''h'', ''heh''), (''i'', ''eye''), (''j'', ''juh''),
     (''k'', ''kuh''), (''l'', ''luh''), (''m'', ''muh''), (''n'', ''nuh''), (''o'', ''oh''),
     (''p'', ''puh''), (''q'', ''koo''), (''r'', ''ruh''), (''s'', ''suh''), (''t'', ''tuh''),
     (''u'', ''oo''), (''v'', ''vuh''), (''w'', ''wuh''), (''x'', ''ex''), (''y'', ''yuh''),
     (''z'', ''zuh'')]"

text \<open>The first statement of both functions: the stress digits go, the rest is lower-cased.\<close>

definition base_of :: "string \<Rightarrow> string" where
  "base_of phoneme = lower (filter (\<lambda>c. \<not> isdigit c) phoneme)"

definition azure_phoneme_to_text :: "string \<Rightarrow> py_error + string" where
  "azure_phoneme_to_text phoneme =
     (let base = base_of phoneme;
          text = dict_get mapping base base
      in if length text = 1 \<and> dict_in text single_letter_mapping
         then dict_item single_letter_mapping text
         else Inr text)"

definition azure_phoneme_to_text2 :: "string \<Rightarrow> py_error + string" where
  "azure_phoneme_to_text2 phoneme =
     (let base = base_of phoneme;
          text = dict_get mapping base base
      in if length text = 1 \<and> dict_in text single_letter_mapping2
         then dict_item single_letter_mapping2 text
         else Inr text)"

section \<open>Prompts, events and answers\<close>

text \<open>
  The entries of \<open>PROMPTS\<close>, each with its \<open>format\<close> argument where the loops give one.
\<close>

definition PROMPTS_phoneme_practice :: "string \<Rightarrow> string" where
  "PROMPTS_phoneme_practice x = ''Let's practice the sound '' @ x @ ''.''"

definition PROMPTS_repeat_phoneme :: "string \<Rightarrow> string" where
  "PROMPTS_repeat_phoneme x = ''Your turn: '' @ x"

definition PROMPTS_whole_word :: "string \<Rightarrow> string" where
  "PROMPTS_whole_word x = ''Now try saying the whole word: '' @ x"

definition PROMPTS_success_phoneme :: string where
  "PROMPTS_success_phoneme = ''Nice! Much better!''"

definition PROMPTS_all_correct :: string where
  "PROMPTS_all_correct = ''Great job! You pronounced the word correctly!''"

definition PROMPTS2_repeat_phoneme :: string where
  "PROMPTS2_repeat_phoneme = ''That's not quite right, can you say ''"

definition PROMPTS2_success_phoneme :: string where
  "PROMPTS2_success_phoneme = ''Nice! Much better!''"

definition PROMPTS2_all_correct :: string where
  "PROMPTS2_all_correct = ''Great job! You pronounced all the sounds correctly.''"

text \<open>\<open>THRESHOLD\<close> of \<open>main.py\<close>. In \<open>main2.py\<close> it is an integer read from the
  environment, so both loops take the threshold as an argument.\<close>

definition THRESHOLD :: int where
  "THRESHOLD = 80"

text \<open>
  A score mapping is the dictionary \<open>phoneme_scores\<close>, in insertion order; an accuracy score
  is a finite float, a real number, and its comparison with the integer threshold is exact.
\<close>

type_synonym scores = "(string \<times> real) list"

text \<open>
  The lines written to the console: \<open>main.py\<close> 260 and 277, \<open>main2.py\<close> 131 and 176, and
  in both files the header and one line for each entry of the mapping.
\<close>

datatype notice =
    No_speech_recognized
  | Could_not_assess
  | No_speech_or_canceled
  | Incorrect_pronunciation
  | Scores_header
  | Score_line string real

text \<open>
  What a run does, in order: \<open>Recognize w\<close> is the recognition request against the
  reference text \<open>w\<close>, which blocks until the service answers; \<open>Speak\<close> is a call of
  \<open>speak\<close>, \<open>Sleep\<close> a call of \<open>time.sleep\<close> with its seconds, \<open>Print\<close> a call of
  \<open>print\<close>.
\<close>

datatype event =
    Recognize string
  | Speak string
  | Sleep real
  | Print notice

text \<open>
  A loop runs against the list of the answers that its successive calls of
  \<open>assess_pronunciation_phonemes\<close> return: \<open>None\<close> when no speech was recognized, the
  score mapping otherwise. It ends \<open>Accepted\<close> when it leaves by \<open>break\<close>, \<open>Waiting\<close> when
  it blocks in a recognition request that the list has no answer for, \<open>Raised\<close> when an
  exception leaves it.
\<close>

datatype status = Accepted | Waiting | Raised py_error

definition prepend :: "event list \<Rightarrow> event list \<times> 'a \<Rightarrow> event list \<times> 'a" where
  "prepend evs r = (evs @ fst r, snd r)"

definition score_report :: "scores \<Rightarrow> event list" where
  "score_report phoneme_scores =
     Print Scores_header # map (\<lambda>(ph, sc). Print (Score_line ph sc)) phoneme_scores"

section \<open>The practice loop of main.py\<close>

definition assess_request :: "string \<Rightarrow> event list" where
  "assess_request target_word = [Recognize target_word]"

definition assess_pronunciation_phonemes ::
  "string \<Rightarrow> scores option \<Rightarrow> event list \<times> scores option" where
  "assess_pronunciation_phonemes target_word answer =
     (assess_request target_word @
        (case answer of None \<Rightarrow> [Print No_speech_recognized] | Some _ \<Rightarrow> []),
      answer)"

text \<open>The dictionary comprehension of line 285.\<close>

definition low_scores :: "int \<Rightarrow> scores \<Rightarrow> scores" where
  "low_scores thr phoneme_scores =
     filter (\<lambda>(ph, sc). sc < real_of_int thr) phoneme_scores"

text \<open>The body of the loop of lines 292 to 297, and the loop.\<close>

definition practice_phoneme :: "string \<Rightarrow> event list \<times> py_error option" where
  "practice_phoneme ph =
     (case azure_phoneme_to_text ph of
        Inl e \<Rightarrow> ([], Some e)
      | Inr readable \<Rightarrow>
          ([Speak (PROMPTS_phoneme_practice readable),
            Speak (PROMPTS_repeat_phoneme readable),
            Sleep (1 / 2),
            Speak PROMPTS_success_phoneme], None))"

fun practice_phonemes :: "string list \<Rightarrow> event list \<times> py_error option" where
  "practice_phonemes [] = ([], None)"
| "practice_phonemes (ph # phs) =
     (case practice_phoneme ph of
        (evs, Some e) \<Rightarrow> (evs, Some e)
      | (evs, None) \<Rightarrow> prepend evs (practice_phonemes phs))"

fun practice_word :: "int \<Rightarrow> string \<Rightarrow> scores option list \<Rightarrow> event list \<times> status" where
  "practice_word thr target_word [] = (assess_request target_word, Waiting)"
| "practice_word thr target_word (answer # answers) =
     (case assess_pronunciation_phonemes target_word answer of
        (heard, phoneme_scores) \<Rightarrow>
          if phoneme_scores = None \<or> phoneme_scores = Some []
          then prepend (heard @ [Print Could_not_assess])
                 (practice_word thr target_word answers)
          else
            let scores = the phoneme_scores;
                shown = heard @ score_report scores;
                low = low_scores thr scores
            in if low = []
               then (shown @ [Speak PROMPTS_all_correct], Accepted)
               else
                 (case practice_phonemes (map fst low) of
                    (drilled, Some e) \<Rightarrow> (shown @ drilled, Raised e)
                  | (drilled, None) \<Rightarrow>
                      prepend
                        (shown @ drilled @
                           [Speak (PROMPTS_whole_word target_word), Sleep 1])
                        (practice_word thr target_word answers)))"

section \<open>The feedback loop of main2.py\<close>

definition assess_request2 :: "string \<Rightarrow> event list" where
  "assess_request2 target_word =
     [Speak (''Please say the word '' @ target_word @ '' now.''), Recognize target_word]"

definition assess_pronunciation_phonemes2 ::
  "string \<Rightarrow> scores option \<Rightarrow> event list \<times> scores option" where
  "assess_pronunciation_phonemes2 target_word answer =
     (assess_request2 target_word @
        (case answer of None \<Rightarrow> [Print No_speech_or_canceled] | Some _ \<Rightarrow> []),
      answer)"

text \<open>The body of the conditional of lines 154 to 160, after the counter is raised.\<close>

definition retry_phoneme :: "string \<Rightarrow> event list \<times> py_error option" where
  "retry_phoneme phoneme =
     (case azure_phoneme_to_text2 phoneme of
        Inl e \<Rightarrow> ([], Some e)
      | Inr readable \<Rightarrow>
          ([Speak PROMPTS2_repeat_phoneme,
            Sleep (1 / 5),
            Speak readable,
            Sleep (1 / 2),
            Speak PROMPTS2_success_phoneme], None))"

text \<open>The loop of line 152; its state is the counter, \<open>low_scores\<close> in the source and
  \<open>low_count\<close> here.\<close>

fun give_phoneme_feedback_loop ::
  "int \<Rightarrow> scores \<Rightarrow> nat \<Rightarrow> event list \<times> (py_error + nat)" where
  "give_phoneme_feedback_loop thr [] low_count = ([], Inr low_count)"
| "give_phoneme_feedback_loop thr ((phoneme, score) # rest) low_count =
     (if score < real_of_int thr
      then (case retry_phoneme phoneme of
              (evs, Some e) \<Rightarrow> (evs, Inl e)
            | (evs, None) \<Rightarrow>
                prepend evs (give_phoneme_feedback_loop thr rest (low_count + 1)))
      else give_phoneme_feedback_loop thr rest low_count)"

definition give_phoneme_feedback ::
  "int \<Rightarrow> string \<Rightarrow> scores \<Rightarrow> event list \<times> py_error option" where
  "give_phoneme_feedback thr word phoneme_scores =
     (case give_phoneme_feedback_loop thr phoneme_scores 0 of
        (evs, Inl e) \<Rightarrow> (evs, Some e)
      | (evs, Inr low_count) \<Rightarrow>
          (evs @ (if low_count = 0 then [Speak PROMPTS2_all_correct] else []), None))"

text \<open>The \<open>while\<close> loop of \<open>main\<close>, and \<open>main\<close> with its target word.\<close>

fun main_while :: "int \<Rightarrow> string \<Rightarrow> scores option list \<Rightarrow> event list \<times> status" where
  "main_while thr target_word [] = (assess_request2 target_word, Waiting)"
| "main_while thr target_word (answer # answers) =
     (case assess_pronunciation_phonemes2 target_word answer of
        (heard, phoneme_scores) \<Rightarrow>
          if phoneme_scores = None \<or> phoneme_scores = Some []
          then prepend (heard @ [Print Incorrect_pronunciation])
                 (main_while thr target_word answers)
          else
            let scores = the phoneme_scores;
                shown = heard @ score_report scores
            in (case give_phoneme_feedback thr target_word scores of
                  (spoken, Some e) \<Rightarrow> (shown @ spoken, Raised e)
                | (spoken, None) \<Rightarrow>
                    if list_all (\<lambda>score. real_of_int thr \<le> score) (map snd scores)
                    then (shown @ spoken, Accepted)
                    else prepend (shown @ spoken) (main_while thr target_word answers)))"

definition main :: "int \<Rightarrow> scores option list \<Rightarrow> event list \<times> status" where
  "main thr answers = main_while thr ''apple'' answers"

section \<open>Facts about the translator\<close>

text \<open>
  The subscript of the second pass is guarded by the membership test, so neither
  translator raises: each returns \<open>Inr\<close> of the text the two passes compute.
\<close>

lemma dict_item_in: "dict_in k d \<Longrightarrow> dict_item d k = Inr (the (map_of d k))"
  by (auto simp: dict_in_def dict_item_def)

lemma azure_phoneme_to_text_Inr:
  "azure_phoneme_to_text s =
     Inr (let t = dict_get mapping (base_of s) (base_of s)
          in if length t = 1 \<and> dict_in t single_letter_mapping
             then the (map_of single_letter_mapping t) else t)"
  by (simp add: azure_phoneme_to_text_def Let_def dict_item_in)

lemma azure_phoneme_to_text2_Inr:
  "azure_phoneme_to_text2 s =
     Inr (let t = dict_get mapping (base_of s) (base_of s)
          in if length t = 1 \<and> dict_in t single_letter_mapping2
             then the (map_of single_letter_mapping2 t) else t)"
  by (simp add: azure_phoneme_to_text2_def Let_def dict_item_in)

text \<open>Digits do not reach the base; a symbol of digits alone has the empty base.\<close>

lemma base_of_append_digits:
  "\<forall>c \<in> set D. isdigit c \<Longrightarrow> base_of (S @ D) = base_of S"
  by (simp add: base_of_def)

lemma base_of_digits: "\<forall>c \<in> set s. isdigit c \<Longrightarrow> base_of s = []"
  by (simp add: base_of_def lower_def)

lemma mapping_keys_nonempty: "map_of mapping [] = None"
  by (simp add: mapping_def)

text \<open>Lower-casing turns no character into a digit, and no table value holds one.\<close>

lemma lower_char_not_digit: "\<not> isdigit c \<Longrightarrow> \<not> isdigit (lower_char c)"
proof -
  let ?n = "of_char c :: nat"
  have up: "of_char (char_of (?n + 32)) = ?n + 32" if "?n \<le> 222"
    using that by simp
  assume "\<not> isdigit c"
  then show ?thesis
    unfolding isdigit_def lower_char_def Let_def
    by (auto simp: up simp del: of_char_of)
qed

lemma base_of_no_digit: "\<forall>c \<in> set (base_of s). \<not> isdigit c"
  by (auto simp: base_of_def lower_def lower_char_not_digit)

lemma mapping_values_no_digit: "\<forall>(k, v) \<in> set mapping. \<forall>c \<in> set v. \<not> isdigit c"
  by (simp add: mapping_def isdigit_def)

lemma single_values_no_digit: "\<forall>(k, v) \<in> set single_letter_mapping. \<forall>c \<in> set v. \<not> isdigit c"
  by (simp add: single_letter_mapping_def isdigit_def)

lemma single2_values_no_digit: "\<forall>(k, v) \<in> set single_letter_mapping2. \<forall>c \<in> set v. \<not> isdigit c"
  by (simp add: single_letter_mapping2_def isdigit_def)

lemma map_of_no_digit:
  assumes "\<forall>(k, v) \<in> set d. \<forall>c \<in> set v. \<not> isdigit c" and "map_of d k = Some v"
  shows "\<forall>c \<in> set v. \<not> isdigit c"
  using assms map_of_SomeD [OF assms(2)] by blast

lemma first_pass_no_digit:
  "\<forall>c \<in> set (dict_get mapping (base_of s) (base_of s)). \<not> isdigit c"
proof (cases "map_of mapping (base_of s)")
  case None
  then show ?thesis
    using base_of_no_digit [of s] by (simp add: dict_get_def)
next
  case (Some v)
  then show ?thesis
    using map_of_no_digit [OF mapping_values_no_digit Some] by (simp add: dict_get_def)
qed

text \<open>The two single-letter tables have the same keys and differ in the value of \<open>h\<close>.\<close>

lemma single2_eq:
  "map_of single_letter_mapping2 k =
     (if k = ''h'' then Some ''heh'' else map_of single_letter_mapping k)"
  by (simp add: single_letter_mapping2_def single_letter_mapping_def)

lemma dict_in_single2: "dict_in k single_letter_mapping2 = dict_in k single_letter_mapping"
  by (simp add: dict_in_def single2_eq) (simp add: single_letter_mapping_def)

lemma text_h_iff:
  "dict_get mapping b b = ''h'' \<longleftrightarrow> b = ''h'' \<or> b = ''hh''"
  by (simp add: dict_get_def mapping_def)

text \<open>The keys of the single-letter table that the standard table does not have.\<close>

lemma unknown_single_letters:
  "(map_of mapping b = None \<and> map_of single_letter_mapping b \<noteq> None) \<longleftrightarrow>
   b \<in> set [''a'', ''c'', ''e'', ''h'', ''i'', ''j'', ''o'', ''q'', ''u'', ''x'']"
  by (simp add: mapping_def single_letter_mapping_def)

lemma single_keys_length: "map_of single_letter_mapping k = Some v \<Longrightarrow> length k = 1"
  by (auto simp: single_letter_mapping_def split: if_splits)

section \<open>Properties of the translator\<close>

text \<open>
  C4, as the code has it. Neither translator fails. For a symbol whose base (digits
  stripped, lower-cased) is not a key of the standard table, the result is the base
  unchanged, unless the base is a key of the single-letter table: then the second pass
  applies and the result is that table's value. These bases are the ten bare letters
  a, c, e, h, i, j, o, q, u, x.
\<close>

theorem translate_unknown_symbol:
  "(\<exists>t. azure_phoneme_to_text s = Inr t) \<and> (\<exists>t. azure_phoneme_to_text2 s = Inr t) \<and>
   (\<not> dict_in (base_of s) mapping \<longrightarrow>
      (\<forall>v. map_of single_letter_mapping (base_of s) = Some v \<longrightarrow>
           azure_phoneme_to_text s = Inr v) \<and>
      (\<forall>v. map_of single_letter_mapping2 (base_of s) = Some v \<longrightarrow>
           azure_phoneme_to_text2 s = Inr v) \<and>
      (base_of s \<notin> set [''a'', ''c'', ''e'', ''h'', ''i'', ''j'', ''o'', ''q'', ''u'', ''x''] \<longrightarrow>
           azure_phoneme_to_text s = Inr (base_of s) \<and>
           azure_phoneme_to_text2 s = Inr (base_of s)))"
proof (intro conjI impI allI)
  show "\<exists>t. azure_phoneme_to_text s = Inr t"
    by (simp add: azure_phoneme_to_text_Inr)
  show "\<exists>t. azure_phoneme_to_text2 s = Inr t"
    by (simp add: azure_phoneme_to_text2_Inr)
next
  fix v
  assume un: "\<not> dict_in (base_of s) mapping"
    and v: "map_of single_letter_mapping (base_of s) = Some v"
  from un have "dict_get mapping (base_of s) (base_of s) = base_of s"
    by (simp add: dict_in_def dict_get_def)
  with v single_keys_length [OF v] show "azure_phoneme_to_text s = Inr v"
    by (simp add: azure_phoneme_to_text_Inr dict_in_def)
next
  fix v
  assume un: "\<not> dict_in (base_of s) mapping"
    and v: "map_of single_letter_mapping2 (base_of s) = Some v"
  from un have t: "dict_get mapping (base_of s) (base_of s) = base_of s"
    by (simp add: dict_in_def dict_get_def)
  from v have "dict_in (base_of s) single_letter_mapping2"
    by (simp add: dict_in_def)
  then have "dict_in (base_of s) single_letter_mapping"
    by (simp only: dict_in_single2)
  then obtain u where "map_of single_letter_mapping (base_of s) = Some u"
    by (auto simp: dict_in_def)
  then have "length (base_of s) = 1"
    by (rule single_keys_length)
  with v t show "azure_phoneme_to_text2 s = Inr v"
    by (simp add: azure_phoneme_to_text2_Inr dict_in_def)
next
  assume un: "\<not> dict_in (base_of s) mapping"
    and no: "base_of s \<notin> set [''a'', ''c'', ''e'', ''h'', ''i'', ''j'', ''o'', ''q'', ''u'', ''x'']"
  from un have t: "dict_get mapping (base_of s) (base_of s) = base_of s"
    by (simp add: dict_in_def dict_get_def)
  from un no unknown_single_letters [of "base_of s"]
  have n: "\<not> dict_in (base_of s) single_letter_mapping"
    by (simp add: dict_in_def)
  from t n show "azure_phoneme_to_text s = Inr (base_of s)"
    by (simp add: azure_phoneme_to_text_Inr)
  from t n show "azure_phoneme_to_text2 s = Inr (base_of s)"
    by (simp add: azure_phoneme_to_text2_Inr dict_in_single2)
qed

theorem translate_unknown_symbol_witness:
  "azure_phoneme_to_text ''zzq2'' = Inr ''zzq'' \<and> azure_phoneme_to_text2 ''zzq2'' = Inr ''zzq'' \<and>
   azure_phoneme_to_text ''c'' = Inr ''cuh'' \<and> azure_phoneme_to_text2 ''H'' = Inr ''heh''"
proof -
  have z: "base_of ''zzq2'' = ''zzq''" and c: "base_of ''c'' = ''c''" and h: "base_of ''H'' = ''h''"
    by (simp_all add: base_of_def lower_def lower_char_def isdigit_def char_of_eq_iff)
  have nz: "\<not> dict_in ''zzq'' mapping" and nc: "\<not> dict_in ''c'' mapping"
    and nh: "\<not> dict_in ''h'' mapping"
    by (simp_all add: dict_in_def mapping_def)
  have sc: "map_of single_letter_mapping ''c'' = Some ''cuh''"
    by (simp add: single_letter_mapping_def)
  have sh: "map_of single_letter_mapping2 ''h'' = Some ''heh''"
    by (simp add: single_letter_mapping2_def)
  show ?thesis
    using translate_unknown_symbol [of "''zzq2''"] translate_unknown_symbol [of "''c''"]
      translate_unknown_symbol [of "''H''"] nz nc nh sc sh
    by (simp add: z c h)
qed

text \<open>
  The symbol \<open>c\<close> is not a key of the standard table, and it is not returned unchanged:
  both translators give \<open>cuh\<close>.
\<close>

theorem translate_unknown_symbol_counterexample:
  "\<not> dict_in (base_of ''c'') mapping \<and>
   azure_phoneme_to_text ''c'' \<noteq> Inr (base_of ''c'') \<and>
   azure_phoneme_to_text2 ''c'' \<noteq> Inr (base_of ''c'')"
  by (simp add: azure_phoneme_to_text_def azure_phoneme_to_text2_def base_of_def lower_def
      lower_char_def isdigit_def dict_get_def dict_in_def dict_item_def mapping_def
      single_letter_mapping_def single_letter_mapping2_def)

text \<open>
  C5. Appending digit characters to a symbol does not change what either translator returns.
\<close>

theorem stress_digits_ignored:
  assumes "\<forall>c \<in> set D. isdigit c"
  shows "azure_phoneme_to_text (S @ D) = azure_phoneme_to_text S \<and>
         azure_phoneme_to_text2 (S @ D) = azure_phoneme_to_text2 S"
  using base_of_append_digits [OF assms, of S]
  by (simp add: azure_phoneme_to_text_def azure_phoneme_to_text2_def)

theorem stress_digits_ignored_witness:
  "list_all isdigit ''01'' \<and>
   azure_phoneme_to_text (''AH'' @ ''01'') = azure_phoneme_to_text ''AH'' \<and>
   azure_phoneme_to_text2 (''AH'' @ ''01'') = azure_phoneme_to_text2 ''AH'' \<and>
   azure_phoneme_to_text ''AH01'' = Inr ''uh''"
proof -
  have d: "\<forall>c \<in> set ''01''. isdigit c"
    by (simp add: isdigit_def)
  have a: "azure_phoneme_to_text ''AH'' = Inr ''uh''"
    by (simp add: azure_phoneme_to_text_def base_of_def lower_def lower_char_def isdigit_def
        dict_get_def dict_in_def mapping_def char_of_eq_iff)
  from d a stress_digits_ignored [OF d, of "''AH''"] show ?thesis
    by (simp add: list_all_iff)
qed

text \<open>
  C6. The symbol \<open>g1\<close> has the base \<open>g\<close>, which the standard table maps to the letter
  \<open>g\<close>, and both translators return \<open>guh\<close>. A symbol whose standard-table value has more
  than one letter keeps that value.
\<close>

theorem single_letter_expansion:
  "base_of ''g1'' = ''g'' \<and> map_of mapping ''g'' = Some ''g'' \<and>
   azure_phoneme_to_text ''g1'' = Inr ''guh'' \<and> azure_phoneme_to_text2 ''g1'' = Inr ''guh'' \<and>
   (map_of mapping (base_of s) = Some v \<and> 1 < length v \<longrightarrow>
      azure_phoneme_to_text s = Inr v \<and> azure_phoneme_to_text2 s = Inr v)"
proof (intro conjI impI)
  show b: "base_of ''g1'' = ''g''"
    by (simp add: base_of_def lower_def lower_char_def isdigit_def)
  show m: "map_of mapping ''g'' = Some ''g''"
    by (simp add: mapping_def)
  show "azure_phoneme_to_text ''g1'' = Inr ''guh''"
    by (simp add: azure_phoneme_to_text_Inr b dict_get_def m dict_in_def)
      (simp add: single_letter_mapping_def)
  show "azure_phoneme_to_text2 ''g1'' = Inr ''guh''"
    by (simp add: azure_phoneme_to_text2_Inr b dict_get_def m dict_in_def)
      (simp add: single_letter_mapping2_def)
next
  assume "map_of mapping (base_of s) = Some v \<and> 1 < length v"
  then show "azure_phoneme_to_text s = Inr v" and "azure_phoneme_to_text2 s = Inr v"
    by (simp_all add: azure_phoneme_to_text_Inr azure_phoneme_to_text2_Inr dict_get_def)
qed

theorem single_letter_expansion_witness:
  "map_of mapping (base_of ''AY2'') = Some ''eye'' \<and> 1 < length ''eye'' \<and>
   azure_phoneme_to_text ''AY2'' = Inr ''eye'' \<and> azure_phoneme_to_text2 ''AY2'' = Inr ''eye''"
proof -
  have m: "map_of mapping (base_of ''AY2'') = Some ''eye''"
    by (simp add: base_of_def lower_def lower_char_def isdigit_def mapping_def char_of_eq_iff)
  with single_letter_expansion [of "''AY2''" "''eye''"] show ?thesis
    by simp
qed

text \<open>
  C8, as the code has it. The translators of \<open>main.py\<close> and \<open>main2.py\<close> return the same
  string exactly for the symbols whose base is neither \<open>h\<close> nor \<open>hh\<close>; for these two bases
  \<open>main.py\<close> returns \<open>huh\<close> and \<open>main2.py\<close> returns \<open>heh\<close>.
\<close>

theorem translators_agree_except_h:
  "(azure_phoneme_to_text s = azure_phoneme_to_text2 s \<longleftrightarrow>
      base_of s \<noteq> ''h'' \<and> base_of s \<noteq> ''hh'') \<and>
   (base_of s = ''h'' \<or> base_of s = ''hh'' \<longrightarrow>
      azure_phoneme_to_text s = Inr ''huh'' \<and> azure_phoneme_to_text2 s = Inr ''heh'')"
proof -
  let ?t = "dict_get mapping (base_of s) (base_of s)"
  have h: "azure_phoneme_to_text s = Inr ''huh'' \<and> azure_phoneme_to_text2 s = Inr ''heh''"
    if "?t = ''h''"
    using that
    by (simp add: azure_phoneme_to_text_Inr azure_phoneme_to_text2_Inr dict_in_def single2_eq)
      (simp add: single_letter_mapping_def)
  have e: "azure_phoneme_to_text s = azure_phoneme_to_text2 s" if "?t \<noteq> ''h''"
    using that
    by (simp add: azure_phoneme_to_text_Inr azure_phoneme_to_text2_Inr dict_in_single2 Let_def
        single2_eq)
  from h e text_h_iff [of "base_of s"] show ?thesis
    by (cases "?t = ''h''") auto
qed

theorem translators_agree_except_h_witness:
  "azure_phoneme_to_text ''AE1'' = azure_phoneme_to_text2 ''AE1'' \<and>
   azure_phoneme_to_text ''HH'' = Inr ''huh'' \<and> azure_phoneme_to_text2 ''HH'' = Inr ''heh''"
proof -
  have a: "base_of ''AE1'' = ''ae''" and h: "base_of ''HH'' = ''hh''"
    by (simp_all add: base_of_def lower_def lower_char_def isdigit_def char_of_eq_iff)
  from translators_agree_except_h [of "''AE1''"] translators_agree_except_h [of "''HH''"]
  show ?thesis
    by (simp add: a h)
qed

text \<open>The two translators differ on the phoneme \<open>hh\<close>.\<close>

theorem translators_differ_counterexample:
  "azure_phoneme_to_text ''hh'' \<noteq> azure_phoneme_to_text2 ''hh''"
  by (simp add: azure_phoneme_to_text_def azure_phoneme_to_text2_def base_of_def lower_def
      lower_char_def isdigit_def dict_get_def dict_in_def dict_item_def mapping_def
      single_letter_mapping_def single_letter_mapping2_def)

text \<open>
  C9. The string that either translator returns holds no digit character, and no value of the
  three tables holds one.
\<close>

theorem translate_output_has_no_digit:
  "(azure_phoneme_to_text s = Inr t \<longrightarrow> (\<forall>c \<in> set t. \<not> isdigit c)) \<and>
   (azure_phoneme_to_text2 s = Inr t \<longrightarrow> (\<forall>c \<in> set t. \<not> isdigit c)) \<and>
   (\<forall>(k, v) \<in> set mapping. \<forall>c \<in> set v. \<not> isdigit c) \<and>
   (\<forall>(k, v) \<in> set single_letter_mapping. \<forall>c \<in> set v. \<not> isdigit c) \<and>
   (\<forall>(k, v) \<in> set single_letter_mapping2. \<forall>c \<in> set v. \<not> isdigit c)"
proof (intro conjI impI)
  let ?t = "dict_get mapping (base_of s) (base_of s)"
  show "\<forall>c \<in> set t. \<not> isdigit c" if "azure_phoneme_to_text s = Inr t"
  proof (cases "length ?t = 1 \<and> dict_in ?t single_letter_mapping")
    case True
    then obtain v where v: "map_of single_letter_mapping ?t = Some v"
      by (auto simp: dict_in_def)
    with True that have "t = v"
      by (simp add: azure_phoneme_to_text_Inr)
    with map_of_no_digit [OF single_values_no_digit v] show ?thesis
      by simp
  next
    case False
    with that have "t = ?t"
      by (auto simp: azure_phoneme_to_text_Inr)
    with first_pass_no_digit [of s] show ?thesis
      by simp
  qed
  show "\<forall>c \<in> set t. \<not> isdigit c" if "azure_phoneme_to_text2 s = Inr t"
  proof (cases "length ?t = 1 \<and> dict_in ?t single_letter_mapping2")
    case True
    then obtain v where v: "map_of single_letter_mapping2 ?t = Some v"
      by (auto simp: dict_in_def)
    with True that have "t = v"
      by (simp add: azure_phoneme_to_text2_Inr)
    with map_of_no_digit [OF single2_values_no_digit v] show ?thesis
      by simp
  next
    case False
    with that have "t = ?t"
      by (auto simp: azure_phoneme_to_text2_Inr)
    with first_pass_no_digit [of s] show ?thesis
      by simp
  qed
qed (rule mapping_values_no_digit single_values_no_digit single2_values_no_digit)+

theorem translate_output_has_no_digit_witness:
  "azure_phoneme_to_text ''x9y'' = Inr ''xy'' \<and> azure_phoneme_to_text2 ''x9y'' = Inr ''xy'' \<and>
   list_all (\<lambda>c. \<not> isdigit c) ''xy''"
proof -
  have a: "azure_phoneme_to_text ''x9y'' = Inr ''xy''"
    and b: "azure_phoneme_to_text2 ''x9y'' = Inr ''xy''"
    by (simp_all add: azure_phoneme_to_text_def azure_phoneme_to_text2_def base_of_def lower_def
        lower_char_def isdigit_def dict_get_def mapping_def)
  from a b translate_output_has_no_digit [of "''x9y''" "''xy''"] show ?thesis
    by (simp add: list_all_iff)
qed

text \<open>
  C10. For a symbol of digit characters alone, the empty symbol included, both translators
  return the empty string.
\<close>

theorem translate_digits_only:
  assumes "\<forall>c \<in> set s. isdigit c"
  shows "azure_phoneme_to_text s = Inr [] \<and> azure_phoneme_to_text2 s = Inr []"
  using base_of_digits [OF assms] mapping_keys_nonempty
  by (simp add: azure_phoneme_to_text_def azure_phoneme_to_text2_def dict_get_def)

theorem translate_digits_only_witness:
  "list_all isdigit ''012'' \<and>
   azure_phoneme_to_text ''012'' = Inr [] \<and> azure_phoneme_to_text2 ''012'' = Inr [] \<and>
   azure_phoneme_to_text [] = Inr [] \<and> azure_phoneme_to_text2 [] = Inr []"
proof -
  have d: "\<forall>c \<in> set ''012''. isdigit c"
    by (simp add: isdigit_def)
  have e: "\<forall>c \<in> set []. isdigit c"
    by simp
  from d translate_digits_only [OF d] translate_digits_only [OF e] show ?thesis
    by (simp add: list_all_iff)
qed

section \<open>Facts about the loops\<close>

text \<open>
  No drill raises, so the drill loops run to their end: their events are the drills of
  their phonemes in order, and the counter of \<open>main2.py\<close> ends at the number of the
  entries below the threshold.
\<close>

lemma practice_phoneme_None: "snd (practice_phoneme ph) = None"
  by (simp add: practice_phoneme_def azure_phoneme_to_text_Inr)

lemma retry_phoneme_None: "snd (retry_phoneme ph) = None"
  by (simp add: retry_phoneme_def azure_phoneme_to_text2_Inr)

lemma practice_phonemes_eq:
  "practice_phonemes phs = (concat (map (\<lambda>ph. fst (practice_phoneme ph)) phs), None)"
proof (induction phs)
  case Nil
  show ?case by simp
next
  case (Cons ph phs)
  obtain evs where "practice_phoneme ph = (evs, None)"
    using practice_phoneme_None [of ph] by (cases "practice_phoneme ph") simp
  with Cons show ?case
    by (simp add: prepend_def)
qed

lemma give_phoneme_feedback_loop_eq:
  "give_phoneme_feedback_loop thr d n =
     (concat (map (\<lambda>(ph, sc). fst (retry_phoneme ph)) (low_scores thr d)),
      Inr (n + length (low_scores thr d)))"
proof (induction d arbitrary: n)
  case Nil
  show ?case by (simp add: low_scores_def)
next
  case (Cons p d)
  obtain ph sc where p: "p = (ph, sc)"
    by (cases p)
  obtain evs where r: "retry_phoneme ph = (evs, None)"
    using retry_phoneme_None [of ph] by (cases "retry_phoneme ph") simp
  show ?case
    using Cons [of "n + 1"] Cons [of n] by (simp add: p r prepend_def low_scores_def)
qed

lemma give_phoneme_feedback_eq:
  "give_phoneme_feedback thr w d =
     (concat (map (\<lambda>(ph, sc). fst (retry_phoneme ph)) (low_scores thr d)) @
        (if low_scores thr d = [] then [Speak PROMPTS2_all_correct] else []),
      None)"
  by (simp add: give_phoneme_feedback_def give_phoneme_feedback_loop_eq)

text \<open>The exit test of \<open>main2.py\<close> holds when no entry is below the threshold.\<close>

lemma all_at_least_iff:
  "list_all (\<lambda>score. real_of_int thr \<le> score) (map snd d) \<longleftrightarrow> low_scores thr d = []"
  by (induction d) (auto simp: low_scores_def)

text \<open>One round of each loop on a score mapping with at least one entry.\<close>

lemma practice_word_Some:
  assumes "d \<noteq> []"
  shows "practice_word thr w (Some d # answers) =
     (if low_scores thr d = []
      then (assess_request w @ score_report d @ [Speak PROMPTS_all_correct], Accepted)
      else prepend
             (assess_request w @ score_report d @
                concat (map (\<lambda>(ph, sc). fst (practice_phoneme ph)) (low_scores thr d)) @
                [Speak (PROMPTS_whole_word w), Sleep 1])
             (practice_word thr w answers))"
  using assms
  by (simp add: assess_pronunciation_phonemes_def practice_phonemes_eq Let_def prepend_def
      comp_def case_prod_unfold)

lemma main_while_Some:
  assumes "d \<noteq> []"
  shows "main_while thr w (Some d # answers) =
     (if low_scores thr d = []
      then (assess_request2 w @ score_report d @ [Speak PROMPTS2_all_correct], Accepted)
      else prepend
             (assess_request2 w @ score_report d @
                concat (map (\<lambda>(ph, sc). fst (retry_phoneme ph)) (low_scores thr d)))
             (main_while thr w answers))"
  using assms
  by (simp add: assess_pronunciation_phonemes2_def give_phoneme_feedback_eq all_at_least_iff
      Let_def prepend_def)

text \<open>Each loop begins with a call of the assessment.\<close>

lemma practice_word_starts: "\<exists>evs. fst (practice_word thr w answers) = Recognize w # evs"
  by (cases answers)
    (simp_all add: assess_request_def assess_pronunciation_phonemes_def prepend_def Let_def
      split: prod.splits option.splits)

lemma main_while_starts:
  "\<exists>evs. fst (main_while thr w answers) =
     Speak (''Please say the word '' @ w @ '' now.'') # Recognize w # evs"
  by (cases answers)
    (simp_all add: assess_request2_def assess_pronunciation_phonemes2_def prepend_def Let_def
      split: prod.splits option.splits)

lemma score_report_console: "filter (\<lambda>e. e \<notin> range Print) (score_report d) = []"
  by (auto simp: score_report_def filter_empty_conv)

text \<open>No exception leaves either loop.\<close>

lemma practice_word_never_raises: "snd (practice_word thr w answers) \<noteq> Raised e"
proof (induction answers)
  case Nil
  show ?case by simp
next
  case (Cons answer answers)
  show ?case
  proof (cases "answer = None \<or> answer = Some []")
    case True
    with Cons show ?thesis
      by (auto simp: assess_pronunciation_phonemes_def prepend_def)
  next
    case False
    then obtain d where d: "answer = Some d" "d \<noteq> []"
      by (cases answer) auto
    with Cons show ?thesis
      by (simp add: practice_word_Some prepend_def del: practice_word.simps(2))
  qed
qed

lemma main_while_never_raises: "snd (main_while thr w answers) \<noteq> Raised e"
proof (induction answers)
  case Nil
  show ?case by simp
next
  case (Cons answer answers)
  show ?case
  proof (cases "answer = None \<or> answer = Some []")
    case True
    with Cons show ?thesis
      by (auto simp: assess_pronunciation_phonemes2_def prepend_def)
  next
    case False
    then obtain d where d: "answer = Some d" "d \<noteq> []"
      by (cases answer) auto
    with Cons show ?thesis
      by (simp add: main_while_Some prepend_def del: main_while.simps(2))
  qed
qed

section \<open>Properties of the loops\<close>

text \<open>
  C1. An entry of the score mapping is in the low-scoring set exactly when its score is
  strictly below the threshold, so a score equal to the threshold is not in it. In
  \<open>main.py\<close> the drilled phonemes are the keys of that set; in \<open>main2.py\<close> the loop
  drills, in order, the entries with a score strictly below the threshold and counts them.
\<close>

theorem threshold_boundary:
  "((ph, sc) \<in> set (low_scores thr d) \<longleftrightarrow> (ph, sc) \<in> set d \<and> sc < real_of_int thr) \<and>
   (ph, real_of_int thr) \<notin> set (low_scores thr d) \<and>
   practice_phonemes (map fst (low_scores thr d)) =
     (concat (map (\<lambda>(ph, sc). fst (practice_phoneme ph))
        (filter (\<lambda>(ph, sc). sc < real_of_int thr) d)), None) \<and>
   give_phoneme_feedback_loop thr d n =
     (concat (map (\<lambda>(ph, sc). fst (retry_phoneme ph))
        (filter (\<lambda>(ph, sc). sc < real_of_int thr) d)),
      Inr (n + length (filter (\<lambda>(ph, sc). sc < real_of_int thr) d)))"
proof (intro conjI)
  show "(ph, sc) \<in> set (low_scores thr d) \<longleftrightarrow> (ph, sc) \<in> set d \<and> sc < real_of_int thr"
    by (auto simp: low_scores_def)
  show "(ph, real_of_int thr) \<notin> set (low_scores thr d)"
    by (simp add: low_scores_def)
  show "practice_phonemes (map fst (low_scores thr d)) =
     (concat (map (\<lambda>(ph, sc). fst (practice_phoneme ph))
        (filter (\<lambda>(ph, sc). sc < real_of_int thr) d)), None)"
    by (simp add: practice_phonemes_eq low_scores_def comp_def case_prod_unfold)
  show "give_phoneme_feedback_loop thr d n =
     (concat (map (\<lambda>(ph, sc). fst (retry_phoneme ph))
        (filter (\<lambda>(ph, sc). sc < real_of_int thr) d)),
      Inr (n + length (filter (\<lambda>(ph, sc). sc < real_of_int thr) d)))"
    using give_phoneme_feedback_loop_eq [of thr d n] by (simp add: low_scores_def)
qed

theorem threshold_boundary_witness:
  "(''eh'', 80) \<notin> set (low_scores 80 [(''eh'', 80), (''l'', 799 / 10)]) \<and>
   (''l'', 799 / 10) \<in> set (low_scores 80 [(''eh'', 80), (''l'', 799 / 10)]) \<and>
   give_phoneme_feedback_loop 80 [(''eh'', 80), (''l'', 799 / 10)] 0 =
     (fst (retry_phoneme ''l''), Inr 1)"
  using threshold_boundary [of "''eh''" 80 80 "[(''eh'', 80), (''l'', 799 / 10)]" 0]
    threshold_boundary [of "''l''" "799 / 10" 80 "[(''eh'', 80), (''l'', 799 / 10)]" 0]
  by simp

text \<open>
  C2, as the code has it. For a round whose score mapping has at least one entry, each loop
  leaves by \<open>break\<close> exactly when no score is below the threshold. In that case the round
  is the call of the assessment, the console report and one "all correct" prompt: no drill,
  and no further recognition request whatever answers remain. Otherwise the round drills
  the low-scoring phonemes and the loop goes on with the next answer.
\<close>

theorem accepted_iff_no_low_score:
  assumes "d \<noteq> []"
  shows
  "(snd (practice_word thr w [Some d]) = Accepted \<longleftrightarrow> low_scores thr d = []) \<and>
   (snd (main_while thr w [Some d]) = Accepted \<longleftrightarrow> low_scores thr d = []) \<and>
   (low_scores thr d = [] \<longrightarrow>
      practice_word thr w (Some d # answers) =
        (Recognize w # score_report d @ [Speak PROMPTS_all_correct], Accepted) \<and>
      main_while thr w (Some d # answers) =
        (Speak (''Please say the word '' @ w @ '' now.'') # Recognize w # score_report d @
           [Speak PROMPTS2_all_correct], Accepted) \<and>
      filter (\<lambda>e. e \<notin> range Print) (fst (practice_word thr w (Some d # answers))) =
        [Recognize w, Speak PROMPTS_all_correct] \<and>
      filter (\<lambda>e. e \<notin> range Print) (fst (main_while thr w (Some d # answers))) =
        [Speak (''Please say the word '' @ w @ '' now.''), Recognize w,
         Speak PROMPTS2_all_correct]) \<and>
   (low_scores thr d \<noteq> [] \<longrightarrow>
      practice_word thr w (Some d # answers) =
        prepend
          (Recognize w # score_report d @
             concat (map (\<lambda>(ph, sc). fst (practice_phoneme ph)) (low_scores thr d)) @
             [Speak (PROMPTS_whole_word w), Sleep 1])
          (practice_word thr w answers) \<and>
      main_while thr w (Some d # answers) =
        prepend
          (Speak (''Please say the word '' @ w @ '' now.'') # Recognize w # score_report d @
             concat (map (\<lambda>(ph, sc). fst (retry_phoneme ph)) (low_scores thr d)))
          (main_while thr w answers))"
proof (intro conjI impI)
  show "snd (practice_word thr w [Some d]) = Accepted \<longleftrightarrow> low_scores thr d = []"
    by (simp add: practice_word_Some [OF assms] prepend_def del: practice_word.simps(2))
  show "snd (main_while thr w [Some d]) = Accepted \<longleftrightarrow> low_scores thr d = []"
    by (simp add: main_while_Some [OF assms] prepend_def del: main_while.simps(2))
next
  assume low: "low_scores thr d = []"
  show a: "practice_word thr w (Some d # answers) =
      (Recognize w # score_report d @ [Speak PROMPTS_all_correct], Accepted)"
    by (simp add: practice_word_Some [OF assms] low assess_request_def del: practice_word.simps(2))
  show b: "main_while thr w (Some d # answers) =
      (Speak (''Please say the word '' @ w @ '' now.'') # Recognize w # score_report d @
         [Speak PROMPTS2_all_correct], Accepted)"
    by (simp add: main_while_Some [OF assms] low assess_request2_def del: main_while.simps(2))
  show "filter (\<lambda>e. e \<notin> range Print) (fst (practice_word thr w (Some d # answers))) =
      [Recognize w, Speak PROMPTS_all_correct]"
    by (auto simp: a score_report_console simp del: practice_word.simps(2))
  show "filter (\<lambda>e. e \<notin> range Print) (fst (main_while thr w (Some d # answers))) =
      [Speak (''Please say the word '' @ w @ '' now.''), Recognize w,
       Speak PROMPTS2_all_correct]"
    by (auto simp: b score_report_console simp del: main_while.simps(2))
next
  assume low: "low_scores thr d \<noteq> []"
  show "practice_word thr w (Some d # answers) =
      prepend
        (Recognize w # score_report d @
           concat (map (\<lambda>(ph, sc). fst (practice_phoneme ph)) (low_scores thr d)) @
           [Speak (PROMPTS_whole_word w), Sleep 1])
        (practice_word thr w answers)"
    by (simp add: practice_word_Some [OF assms] low assess_request_def del: practice_word.simps(2))
  show "main_while thr w (Some d # answers) =
      prepend
        (Speak (''Please say the word '' @ w @ '' now.'') # Recognize w # score_report d @
           concat (map (\<lambda>(ph, sc). fst (retry_phoneme ph)) (low_scores thr d)))
        (main_while thr w answers)"
    by (simp add: main_while_Some [OF assms] low assess_request2_def del: main_while.simps(2))
qed

theorem accepted_iff_no_low_score_witness:
  "[(''ae'', 80), (''p'', 95)] \<noteq> ([] :: scores) \<and>
   low_scores 80 [(''ae'', 80), (''p'', 95)] = [] \<and>
   practice_word 80 ''apple'' [Some [(''ae'', 80), (''p'', 95)], None] =
     ([Recognize ''apple'', Print Scores_header, Print (Score_line ''ae'' 80),
       Print (Score_line ''p'' 95), Speak PROMPTS_all_correct], Accepted) \<and>
   main 80 [Some [(''ae'', 80), (''p'', 95)], None] =
     ([Speak ''Please say the word apple now.'', Recognize ''apple'', Print Scores_header,
       Print (Score_line ''ae'' 80), Print (Score_line ''p'' 95),
       Speak PROMPTS2_all_correct], Accepted)"
proof -
  have n: "[(''ae'', 80), (''p'', 95)] \<noteq> ([] :: scores)"
    by simp
  have l: "low_scores 80 [(''ae'', 80), (''p'', 95)] = []"
    by (simp add: low_scores_def)
  from n l accepted_iff_no_low_score [OF n, of 80 "''apple''" "[None]"] show ?thesis
    by (simp add: main_def score_report_def)
qed

text \<open>
  The score mapping with no entry has an empty low-scoring set, and neither loop accepts it:
  each speaks no "all correct" prompt and issues the next recognition request.
\<close>

theorem accepted_iff_no_low_score_counterexample:
  "low_scores 80 [] = [] \<and>
   practice_word 80 ''hello'' [Some []] =
     ([Recognize ''hello'', Print Could_not_assess, Recognize ''hello''], Waiting) \<and>
   main 80 [Some []] =
     ([Speak ''Please say the word apple now.'', Recognize ''apple'',
       Print Incorrect_pronunciation,
       Speak ''Please say the word apple now.'', Recognize ''apple''], Waiting)"
  by (simp add: low_scores_def main_def assess_pronunciation_phonemes_def
      assess_pronunciation_phonemes2_def assess_request_def assess_request2_def prepend_def)

text \<open>
  C3. With the scores hh 60, eh 95, l 40, ow 90 and the threshold 80 the low-scoring set is
  hh, l in this order and the word is not accepted: \<open>practice_word\<close> drills \<open>huh\<close>, then
  \<open>luh\<close>, each with the practice prompt, the your-turn prompt, the pause and the
  encouragement, prompts the whole word, pauses, and calls the assessment again. The
  low-scoring set of any mapping keeps the order of the mapping.
\<close>

theorem end_to_end_scenario:
  "low_scores THRESHOLD [(''hh'', 60), (''eh'', 95), (''l'', 40), (''ow'', 90)] =
     [(''hh'', 60), (''l'', 40)] \<and>
   snd (practice_word THRESHOLD w [Some [(''hh'', 60), (''eh'', 95), (''l'', 40), (''ow'', 90)]]) =
     Waiting \<and>
   practice_word THRESHOLD w
       (Some [(''hh'', 60), (''eh'', 95), (''l'', 40), (''ow'', 90)] # answers) =
     prepend
       [Recognize w,
        Print Scores_header, Print (Score_line ''hh'' 60), Print (Score_line ''eh'' 95),
        Print (Score_line ''l'' 40), Print (Score_line ''ow'' 90),
        Speak ''Let's practice the sound huh.'', Speak ''Your turn: huh'', Sleep (1 / 2),
        Speak ''Nice! Much better!'',
        Speak ''Let's practice the sound luh.'', Speak ''Your turn: luh'', Sleep (1 / 2),
        Speak ''Nice! Much better!'',
        Speak (''Now try saying the whole word: '' @ w), Sleep 1]
       (practice_word THRESHOLD w answers) \<and>
   (\<exists>evs. fst (practice_word THRESHOLD w answers) = Recognize w # evs) \<and>
   subseq (low_scores thr d) d"
proof (intro conjI)
  let ?d = "[(''hh'', 60), (''eh'', 95), (''l'', 40), (''ow'', 90)] :: scores"
  show low: "low_scores THRESHOLD ?d = [(''hh'', 60), (''l'', 40)]"
    by (simp add: low_scores_def THRESHOLD_def)
  have hh: "fst (practice_phoneme ''hh'') =
      [Speak ''Let's practice the sound huh.'', Speak ''Your turn: huh'', Sleep (1 / 2),
       Speak ''Nice! Much better!'']"
    by (simp add: practice_phoneme_def azure_phoneme_to_text_def base_of_def lower_def
        lower_char_def isdigit_def dict_get_def dict_in_def dict_item_def mapping_def
        single_letter_mapping_def PROMPTS_phoneme_practice_def PROMPTS_repeat_phoneme_def
        PROMPTS_success_phoneme_def)
  have l: "fst (practice_phoneme ''l'') =
      [Speak ''Let's practice the sound luh.'', Speak ''Your turn: luh'', Sleep (1 / 2),
       Speak ''Nice! Much better!'']"
    by (simp add: practice_phoneme_def azure_phoneme_to_text_def base_of_def lower_def
        lower_char_def isdigit_def dict_get_def dict_in_def dict_item_def mapping_def
        single_letter_mapping_def PROMPTS_phoneme_practice_def PROMPTS_repeat_phoneme_def
        PROMPTS_success_phoneme_def)
  have ne: "?d \<noteq> []"
    by simp
  show run: "practice_word THRESHOLD w (Some ?d # answers) =
     prepend
       [Recognize w,
        Print Scores_header, Print (Score_line ''hh'' 60), Print (Score_line ''eh'' 95),
        Print (Score_line ''l'' 40), Print (Score_line ''ow'' 90),
        Speak ''Let's practice the sound huh.'', Speak ''Your turn: huh'', Sleep (1 / 2),
        Speak ''Nice! Much better!'',
        Speak ''Let's practice the sound luh.'', Speak ''Your turn: luh'', Sleep (1 / 2),
        Speak ''Nice! Much better!'',
        Speak (''Now try saying the whole word: '' @ w), Sleep 1]
       (practice_word THRESHOLD w answers)" for answers
    by (simp add: practice_word_Some [OF ne] low hh l assess_request_def score_report_def
        PROMPTS_whole_word_def del: practice_word.simps(2))
  show "snd (practice_word THRESHOLD w [Some ?d]) = Waiting"
    by (simp add: run prepend_def del: practice_word.simps(2))
  show "\<exists>evs. fst (practice_word THRESHOLD w answers) = Recognize w # evs"
    by (rule practice_word_starts)
  show "subseq (low_scores thr d) d"
    by (simp add: low_scores_def)
qed

theorem end_to_end_scenario_witness:
  "practice_word THRESHOLD ''hello''
     [Some [(''hh'', 60), (''eh'', 95), (''l'', 40), (''ow'', 90)]] =
     ([Recognize ''hello'',
       Print Scores_header, Print (Score_line ''hh'' 60), Print (Score_line ''eh'' 95),
       Print (Score_line ''l'' 40), Print (Score_line ''ow'' 90),
       Speak ''Let's practice the sound huh.'', Speak ''Your turn: huh'', Sleep (1 / 2),
       Speak ''Nice! Much better!'',
       Speak ''Let's practice the sound luh.'', Speak ''Your turn: luh'', Sleep (1 / 2),
       Speak ''Nice! Much better!'',
       Speak ''Now try saying the whole word: hello'', Sleep 1,
       Recognize ''hello''], Waiting)"
  using end_to_end_scenario [of "''hello''" "[]" 80 "[]"]
  by (simp add: prepend_def assess_request_def del: practice_word.simps(2))

text \<open>
  C7. On an absent answer and on a score mapping with no entry alike, each loop writes its
  console notice and starts over with the same word: apart from the console, the round
  is the call of the assessment alone (in \<open>main2.py\<close> that call announces itself), and
  the next thing the loop does is to call the assessment again.
\<close>

theorem no_speech_and_empty_scores_retry:
  assumes "answer = None \<or> answer = Some []"
  shows
  "practice_word thr w (answer # answers) =
     prepend (fst (assess_pronunciation_phonemes w answer) @ [Print Could_not_assess])
       (practice_word thr w answers) \<and>
   main_while thr w (answer # answers) =
     prepend (fst (assess_pronunciation_phonemes2 w answer) @ [Print Incorrect_pronunciation])
       (main_while thr w answers) \<and>
   filter (\<lambda>e. e \<notin> range Print) (fst (assess_pronunciation_phonemes w answer)) =
     [Recognize w] \<and>
   filter (\<lambda>e. e \<notin> range Print) (fst (assess_pronunciation_phonemes2 w answer)) =
     [Speak (''Please say the word '' @ w @ '' now.''), Recognize w] \<and>
   (\<exists>evs. fst (practice_word thr w answers) = Recognize w # evs) \<and>
   (\<exists>evs. fst (main_while thr w answers) =
      Speak (''Please say the word '' @ w @ '' now.'') # Recognize w # evs)"
proof (intro conjI)
  show "practice_word thr w (answer # answers) =
     prepend (fst (assess_pronunciation_phonemes w answer) @ [Print Could_not_assess])
       (practice_word thr w answers)"
    using assms by (auto simp: assess_pronunciation_phonemes_def)
  show "main_while thr w (answer # answers) =
     prepend (fst (assess_pronunciation_phonemes2 w answer) @ [Print Incorrect_pronunciation])
       (main_while thr w answers)"
    using assms by (auto simp: assess_pronunciation_phonemes2_def)
  show "filter (\<lambda>e. e \<notin> range Print) (fst (assess_pronunciation_phonemes w answer)) =
     [Recognize w]"
    using assms by (auto simp: assess_pronunciation_phonemes_def assess_request_def)
  show "filter (\<lambda>e. e \<notin> range Print) (fst (assess_pronunciation_phonemes2 w answer)) =
     [Speak (''Please say the word '' @ w @ '' now.''), Recognize w]"
    using assms by (auto simp: assess_pronunciation_phonemes2_def assess_request2_def)
  show "\<exists>evs. fst (practice_word thr w answers) = Recognize w # evs"
    by (rule practice_word_starts)
  show "\<exists>evs. fst (main_while thr w answers) =
      Speak (''Please say the word '' @ w @ '' now.'') # Recognize w # evs"
    by (rule main_while_starts)
qed

theorem no_speech_and_empty_scores_retry_witness:
  "practice_word 80 ''hello'' [None, Some []] =
     ([Recognize ''hello'', Print No_speech_recognized, Print Could_not_assess,
       Recognize ''hello'', Print Could_not_assess,
       Recognize ''hello''], Waiting) \<and>
   main 80 [None, Some []] =
     ([Speak ''Please say the word apple now.'', Recognize ''apple'',
       Print No_speech_or_canceled, Print Incorrect_pronunciation,
       Speak ''Please say the word apple now.'', Recognize ''apple'',
       Print Incorrect_pronunciation,
       Speak ''Please say the word apple now.'', Recognize ''apple''], Waiting)"
proof -
  have n: "(None :: scores option) = None \<or> (None :: scores option) = Some []"
    and e: "Some ([] :: scores) = None \<or> Some ([] :: scores) = Some []"
    by simp_all
  from no_speech_and_empty_scores_retry [OF n, of 80 "''hello''" "[Some []]"]
    no_speech_and_empty_scores_retry [OF e, of 80 "''hello''" "[]"]
    no_speech_and_empty_scores_retry [OF n, of 80 "''apple''" "[Some []]"]
    no_speech_and_empty_scores_retry [OF e, of 80 "''apple''" "[]"]
  show ?thesis
    by (simp add: main_def prepend_def assess_pronunciation_phonemes_def
        assess_pronunciation_phonemes2_def assess_request_def assess_request2_def
        del: practice_word.simps(2) main_while.simps(2))
qed

end
